theory Spec2Isabelle
  imports Main "HOL-Library.Word"
begin

section \<open>Data model of \<^verbatim>\<open>internal/crypto/crypto.go\<close>\<close>

text \<open>
  A Go \<^verbatim>\<open>string\<close> is a sequence of bytes and is modelled as \<^typ>\<open>string\<close>;
  a \<^verbatim>\<open>[]byte\<close> is a list of 8-bit words. \<^verbatim>\<open>len\<close> counts bytes in both.
  The conversion \<^verbatim>\<open>[]byte(s)\<close> keeps every byte.
\<close>

type_synonym byte = "8 word"
type_synonym bytes = "byte list"

definition bytes_of_string :: "string \<Rightarrow> bytes" where
  "bytes_of_string s = map of_char s"

text \<open>
  A \<^verbatim>\<open>time.Time\<close> is an instant, counted in nanoseconds from the zero instant
  (January 1, year 1, 00:00:00 UTC), so \<^verbatim>\<open>t.IsZero()\<close> is \<open>t = 0\<close>,
  \<^verbatim>\<open>a.Before(b)\<close> is \<open>a < b\<close> and \<^verbatim>\<open>a.After(b)\<close> is \<open>a > b\<close>.
  A \<^verbatim>\<open>time.Duration\<close> is a number of nanoseconds.
\<close>

type_synonym time = int
type_synonym duration = int

subsection \<open>The encrypted envelope\<close>

record EncryptedString =
  KeyID :: string
  Algorithm :: string
  Data :: bytes
  Nonce :: bytes

subsection \<open>Errors and outcomes of the envelope functions\<close>

text \<open>
  The errors the envelope functions return: the base64 decoder's error, the two
  errors built with \<^verbatim>\<open>fmt.Errorf\<close> (each carries the key id it prints), and the
  errors \<^verbatim>\<open>cipher.Open\<close>, \<^verbatim>\<open>aes.NewCipher\<close>, \<^verbatim>\<open>io.ReadFull\<close> and
  \<^verbatim>\<open>json.Marshal\<close> return.
\<close>

datatype crypto_error =
    CorruptInputError
  | KeyNot256Bits string
  | KeyDoesNotExist string
  | OpenFailed
  | KeySizeError
  | ErrUnexpectedEOF
  | MarshalError

text \<open>A call returns a value, returns an error, or panics.\<close>

datatype 'a outcome = Return 'a | Fail crypto_error | Panic

definition and_then :: "'a outcome \<Rightarrow> ('a \<Rightarrow> 'b outcome) \<Rightarrow> 'b outcome" where
  "and_then m f = (case m of Return x \<Rightarrow> f x | Fail e \<Rightarrow> Fail e | Panic \<Rightarrow> Panic)"

text \<open>
  Modelled from the spec: the package's helper \<^verbatim>\<open>must\<close> is not among the sources.
  Section 9 of the specification describes it as the helper that panics when the call
  it wraps reports a failure, and hands the value on otherwise.
\<close>

definition must :: "'a outcome \<Rightarrow> 'a outcome" where
  "must m = (case m of Return x \<Rightarrow> Return x | Fail e \<Rightarrow> Panic | Panic \<Rightarrow> Panic)"

subsection \<open>The library the package calls\<close>

text \<open>
  The functions of the Go standard library and of third-party packages that the code calls
  are parameters of the model, collected in one record:
  \<^item> \<open>base64_DecodeString\<close>: \<^verbatim>\<open>base64.RawURLEncoding.DecodeString\<close>; \<open>None\<close> is its error;
  \<^item> \<open>hkdf_New\<close>: the byte stream of \<^verbatim>\<open>hkdf.New(sha256.New, secret, salt, info)\<close>;
  \<^item> \<open>gcm_Seal\<close>: \<^verbatim>\<open>Seal(nil, nonce, plaintext, nil)\<close> of the GCM of a key;
  \<^item> \<open>gcm_Open\<close>: \<^verbatim>\<open>Open(nil, nonce, ciphertext, nil)\<close> of the GCM of a key, which
    returns the plaintext, returns an error or panics;
  \<^item> \<open>json_Marshal\<close>, \<open>json_Unmarshal\<close>: \<^verbatim>\<open>encoding/json\<close> at the type of the envelope;
    \<open>None\<close> is an error;
  \<^item> \<open>base58_Decode\<close>: \<^verbatim>\<open>base58.Decode\<close>;
  \<^item> \<open>IsValidDomain\<close>, \<open>IsValidSolanaNetwork\<close>: the predicates of the package
    \<^verbatim>\<open>internal/utilities/solana\<close>;
  \<^item> \<open>url_Parse\<close>: whether \<^verbatim>\<open>url.Parse\<close> returns no error;
  \<^item> \<open>ed25519_Verify\<close>: \<^verbatim>\<open>ed25519.Verify(publicKey, message, sig)\<close>.
\<close>

record lib =
  base64_DecodeString :: "string \<Rightarrow> bytes option"
  hkdf_New :: "bytes \<Rightarrow> bytes \<Rightarrow> bytes \<Rightarrow> bytes"
  gcm_Seal :: "bytes \<Rightarrow> bytes \<Rightarrow> bytes \<Rightarrow> bytes"
  gcm_Open :: "bytes \<Rightarrow> bytes \<Rightarrow> bytes \<Rightarrow> bytes outcome"
  json_Marshal :: "EncryptedString \<Rightarrow> string option"
  json_Unmarshal :: "string \<Rightarrow> EncryptedString option"
  base58_Decode :: "string \<Rightarrow> bytes"
  IsValidDomain :: "string \<Rightarrow> bool"
  IsValidSolanaNetwork :: "string \<Rightarrow> bool"
  url_Parse :: "string \<Rightarrow> bool"
  ed25519_Verify :: "bytes \<Rightarrow> bytes \<Rightarrow> bytes \<Rightarrow> bool"

text \<open>
  \<^verbatim>\<open>io.ReadFull(r, buf)\<close> fills a buffer of \<open>n\<close> bytes from a stream, and fails when
  the stream ends first.
\<close>

definition io_ReadFull :: "bytes \<Rightarrow> nat \<Rightarrow> bytes outcome" where
  "io_ReadFull stream n =
     (if length stream < n then Fail ErrUnexpectedEOF else Return (take n stream))"

text \<open>
  \<^verbatim>\<open>aes.NewCipher(key)\<close> accepts keys of 16, 24 and 32 bytes; the block it returns is
  represented by its key. \<^verbatim>\<open>cipher.NewGCM(block)\<close> accepts every AES block.
\<close>

definition aes_NewCipher :: "bytes \<Rightarrow> bytes outcome" where
  "aes_NewCipher key =
     (if length key = 16 \<or> length key = 24 \<or> length key = 32 then Return key
      else Fail KeySizeError)"

definition cipher_NewGCM :: "bytes \<Rightarrow> bytes outcome" where
  "cipher_NewGCM block = Return block"

text \<open>Indexing a Go map: an absent key gives the zero value, the empty string.\<close>

definition map_index :: "(string \<rightharpoonup> string) \<Rightarrow> string \<Rightarrow> string" where
  "map_index m k = (case m k of None \<Rightarrow> [] | Some v \<Rightarrow> v)"


section \<open>The envelope functions\<close>


definition ShouldReEncrypt :: "EncryptedString \<Rightarrow> string \<Rightarrow> bool" where
  "ShouldReEncrypt es encryptionKeyID = (KeyID es \<noteq> encryptionKeyID)"

definition deriveSymmetricKey :: "lib \<Rightarrow> string \<Rightarrow> string \<Rightarrow> string \<Rightarrow> bytes outcome" where
  "deriveSymmetricKey l id' keyID keyBase64URL =
     (case base64_DecodeString l keyBase64URL of
        None \<Rightarrow> Fail CorruptInputError
      | Some hkdfKey \<Rightarrow>
          if length hkdfKey \<noteq> 256 div 8 then Fail (KeyNot256Bits keyID)
          else must (io_ReadFull (hkdf_New l hkdfKey [] (bytes_of_string id')) (256 div 8)))"

definition Decrypt ::
  "lib \<Rightarrow> EncryptedString \<Rightarrow> string \<Rightarrow> (string \<rightharpoonup> string) \<Rightarrow> bytes outcome" where
  "Decrypt l es id' decryptionKeys =
     (let decryptionKey = map_index decryptionKeys (KeyID es) in
      if decryptionKey = [] then Fail (KeyDoesNotExist (KeyID es))
      else
        and_then (deriveSymmetricKey l id' (KeyID es) decryptionKey) (\<lambda>key.
        and_then (must (aes_NewCipher key)) (\<lambda>block.
        and_then (must (cipher_NewGCM block)) (\<lambda>gcm.
        gcm_Open l gcm (Nonce es) (Data es)))))"



text \<open>
  \<open>NewEncryptedString\<close> draws its nonce from \<^verbatim>\<open>rand.Reader\<close>; the bytes the reader
  yields are the argument \<open>rnd\<close>.
\<close>

definition NewEncryptedString ::
  "lib \<Rightarrow> bytes \<Rightarrow> string \<Rightarrow> bytes \<Rightarrow> string \<Rightarrow> string \<Rightarrow> EncryptedString outcome" where
  "NewEncryptedString l rnd id' data keyID keyBase64URL =
     and_then (deriveSymmetricKey l id' keyID keyBase64URL) (\<lambda>key.
     and_then (must (aes_NewCipher key)) (\<lambda>block.
     and_then (must (cipher_NewGCM block)) (\<lambda>gcm.
     and_then (must (io_ReadFull rnd 12)) (\<lambda>nonce.
     Return \<lparr>KeyID = keyID, Algorithm = ''aes-gcm-hkdf'',
             Data = gcm_Seal l gcm nonce data, Nonce = nonce\<rparr>))))"

section \<open>The SIWS verifier\<close>

text \<open>
  The type \<^verbatim>\<open>siws.SIWSMessage\<close> is declared outside the sources; the record holds
  the fields that \<open>VerifySIWS\<close> reads, and \<open>siws_error\<close> the errors it returns.
\<close>

record SIWSMessage =
  Domain :: string
  Address :: string
  Version :: string
  ChainID :: string
  Nonce_msg :: string
  URI :: string
  Resources :: "string list"
  IssuedAt :: time
  NotBefore :: time
  ExpirationTime :: time

record SIWSVerificationParams =
  ExpectedDomain :: string
  CheckTime :: bool
  TimeDuration :: duration

datatype siws_error =
    ErrEmptyRawMessage
  | ErrEmptySignature
  | ErrNilMessage
  | ErrMissingDomain
  | ErrInvalidDomainFormat
  | ErrDomainMismatch
  | ErrInvalidPubKeySize
  | ErrInvalidVersion
  | ErrInvalidChainID
  | ErrNonceTooShort
  | ErrInvalidURI
  | ErrInvalidResourceURI
  | ErrSignatureVerification
  | ErrFutureMessage
  | ErrMessageExpired
  | ErrNotYetValid

text \<open>
  Modelled from the spec: \<^verbatim>\<open>siws.IsBase58PubKey\<close> is not among the sources. Step 7
  of section 4.1 of the specification says what it accepts: a decoded address of
  exactly 32 bytes.
\<close>

definition IsBase58PubKey :: "bytes \<Rightarrow> bool" where
  "IsBase58PubKey pubKey = (length pubKey = 32)"

text \<open>The loop over \<^verbatim>\<open>msg.Resources\<close>: it returns at the first entry that does not parse.\<close>

fun validate_resources :: "lib \<Rightarrow> string list \<Rightarrow> siws_error option" where
  "validate_resources l [] = None"
| "validate_resources l (resource # rest) =
     (if \<not> url_Parse l resource then Some ErrInvalidResourceURI
      else validate_resources l rest)"

text \<open>
  \<open>VerifySIWS\<close> returns an \<^verbatim>\<open>error\<close>: \<open>None\<close> is \<^verbatim>\<open>nil\<close>, the verification
  succeeded. The message is a pointer, \<open>None\<close> when it is \<^verbatim>\<open>nil\<close>. The argument
  \<open>now\<close> is what \<^verbatim>\<open>time.Now().UTC()\<close> returns, read once before the time checks.
  A block \<^verbatim>\<open>if a { if b { return e } }\<close> of the source is the branch
  \<open>if a \<and> b then Some e\<close> here. \<^verbatim>\<open>ed25519.Verify\<close> is called only on a key that
  \<open>IsBase58PubKey\<close> accepted.
\<close>

definition VerifySIWS ::
  "lib \<Rightarrow> time \<Rightarrow> string \<Rightarrow> bytes \<Rightarrow> SIWSMessage option \<Rightarrow> SIWSVerificationParams
   \<Rightarrow> siws_error option" where
  "VerifySIWS l now rawMessage signature m params =
     (if rawMessage = [] then Some ErrEmptyRawMessage
      else if length signature = 0 then Some ErrEmptySignature
      else case m of
        None \<Rightarrow> Some ErrNilMessage
      | Some msg \<Rightarrow>
          if ExpectedDomain params = [] then Some ErrMissingDomain
          else if \<not> IsValidDomain l (Domain msg) then Some ErrInvalidDomainFormat
          else if Domain msg \<noteq> ExpectedDomain params then Some ErrDomainMismatch
          else
            let pubKey = base58_Decode l (Address msg) in
            if \<not> IsBase58PubKey pubKey then Some ErrInvalidPubKeySize
            else if Version msg \<noteq> ''1'' then Some ErrInvalidVersion
            else if ChainID msg \<noteq> [] \<and> \<not> IsValidSolanaNetwork l (ChainID msg)
              then Some ErrInvalidChainID
            else if Nonce_msg msg \<noteq> [] \<and> length (Nonce_msg msg) < 8
              then Some ErrNonceTooShort
            else if URI msg \<noteq> [] \<and> \<not> url_Parse l (URI msg) then Some ErrInvalidURI
            else case validate_resources l (Resources msg) of
              Some e \<Rightarrow> Some e
            | None \<Rightarrow>
                if \<not> ed25519_Verify l pubKey (bytes_of_string rawMessage) signature
                  then Some ErrSignatureVerification
                else if IssuedAt msg \<noteq> 0 \<and> now < IssuedAt msg then Some ErrFutureMessage
                else if IssuedAt msg \<noteq> 0 \<and> CheckTime params \<and> 0 < TimeDuration params
                        \<and> IssuedAt msg + TimeDuration params < now
                  then Some ErrMessageExpired
                else if NotBefore msg \<noteq> 0 \<and> now < NotBefore msg then Some ErrNotYetValid
                else if ExpirationTime msg \<noteq> 0 \<and> ExpirationTime msg < now
                  then Some ErrMessageExpired
                else None)"

section \<open>The nonce store\<close>

type_synonym uuid = "128 word"

record StoredNonce =
  ID :: uuid
  Nonce_row :: string
  Address_row :: string
  CreatedAt :: time
  ExpiresAt :: time
  Used :: bool

text \<open>The table \<^verbatim>\<open>auth.nonces\<close> is the list of its rows.\<close>

type_synonym nonces = "StoredNonce list"

datatype consume_error = ErrNoRows | ErrNonceExpired

text \<open>
  The \<^verbatim>\<open>SELECT\<close>: \<^verbatim>\<open>QueryRow(...).Scan\<close> gives the first row that satisfies the
  \<^verbatim>\<open>WHERE\<close> clause, and \<^verbatim>\<open>sql.ErrNoRows\<close> when there is none.
\<close>

definition QueryRow :: "nonces \<Rightarrow> string \<Rightarrow> string \<Rightarrow> StoredNonce option" where
  "QueryRow tbl nonce address =
     find (\<lambda>r. Nonce_row r = nonce \<and> Used r = False \<and> Address_row r = address) tbl"

text \<open>The \<^verbatim>\<open>UPDATE\<close>: every row with the given id gets \<open>used = true\<close> and the address.\<close>

definition Exec_update :: "nonces \<Rightarrow> string \<Rightarrow> uuid \<Rightarrow> nonces" where
  "Exec_update tbl address id' =
     map (\<lambda>r. if ID r = id' then r\<lparr>Used := True, Address_row := address\<rparr> else r) tbl"

text \<open>
  Modelled from the spec: \<^verbatim>\<open>storage.Connection.Transaction\<close> is not among the
  sources. Sections 4.4 and 5 of the specification describe it: the function runs as one
  isolated transaction, committed when it returns no error and rolled back, leaving
  every row unmodified, when it returns one.
\<close>

definition Transaction ::
  "nonces \<Rightarrow> (nonces \<Rightarrow> nonces \<times> consume_error option) \<Rightarrow> nonces \<times> consume_error option" where
  "Transaction tbl fn =
     (case fn tbl of
        (tbl', None) \<Rightarrow> (tbl', None)
      | (tbl', Some err) \<Rightarrow> (tbl, Some err))"

text \<open>
  \<open>VerifyAndConsumeNonce\<close> returns the table as the transaction leaves it and the error
  (\<open>None\<close> is \<^verbatim>\<open>nil\<close>). The argument \<open>now\<close> is what \<^verbatim>\<open>time.Now()\<close> returns.
  A failure of the connection itself is not modelled: the two statements return what
  the table holds.
\<close>

definition VerifyAndConsumeNonce ::
  "time \<Rightarrow> nonces \<Rightarrow> string \<Rightarrow> string \<Rightarrow> nonces \<times> consume_error option" where
  "VerifyAndConsumeNonce now db nonce address =
     Transaction db (\<lambda>tx.
       case QueryRow tx nonce address of
         None \<Rightarrow> (tx, Some ErrNoRows)
       | Some storedNonce \<Rightarrow>
           if ExpiresAt storedNonce < now then (tx, Some ErrNonceExpired)
           else (Exec_update tx address (ID storedNonce), None))"

section \<open>The specification's reading of the verifier\<close>

text \<open>
  Section 4.1 of the specification lists sixteen preconditions. Each is written here as
  the specification words it, as the error it reports when it fails (\<open>None\<close> when it
  holds). A precondition on the parsed message holds of an absent message, which
  precondition 3 has rejected by then.
\<close>

definition require :: "bool \<Rightarrow> siws_error \<Rightarrow> siws_error option" where
  "require c e = (if c then None else Some e)"

definition on_msg ::
  "SIWSMessage option \<Rightarrow> (SIWSMessage \<Rightarrow> siws_error option) \<Rightarrow> siws_error option" where
  "on_msg m f = (case m of None \<Rightarrow> None | Some msg \<Rightarrow> f msg)"

fun first_failure :: "siws_error option list \<Rightarrow> siws_error option" where
  "first_failure [] = None"
| "first_failure (None # cs) = first_failure cs"
| "first_failure (Some e # cs) = Some e"

definition preconditions ::
  "lib \<Rightarrow> time \<Rightarrow> string \<Rightarrow> bytes \<Rightarrow> SIWSMessage option \<Rightarrow> SIWSVerificationParams
   \<Rightarrow> siws_error option list" where
  "preconditions l now rawMessage signature m params =
     [ require (rawMessage \<noteq> []) ErrEmptyRawMessage,
       require (signature \<noteq> []) ErrEmptySignature,
       require (m \<noteq> None) ErrNilMessage,
       require (ExpectedDomain params \<noteq> []) ErrMissingDomain,
       on_msg m (\<lambda>msg. require (IsValidDomain l (Domain msg)) ErrInvalidDomainFormat),
       on_msg m (\<lambda>msg. require (Domain msg = ExpectedDomain params) ErrDomainMismatch),
       on_msg m (\<lambda>msg.
         require (length (base58_Decode l (Address msg)) = 32) ErrInvalidPubKeySize),
       on_msg m (\<lambda>msg. require (Version msg = ''1'') ErrInvalidVersion),
       on_msg m (\<lambda>msg.
         if ChainID msg = [] then None
         else require (IsValidSolanaNetwork l (ChainID msg)) ErrInvalidChainID),
       on_msg m (\<lambda>msg.
         if Nonce_msg msg = [] then None
         else require (8 \<le> length (Nonce_msg msg)) ErrNonceTooShort),
       on_msg m (\<lambda>msg.
         if URI msg = [] then None else require (url_Parse l (URI msg)) ErrInvalidURI),
       on_msg m (\<lambda>msg.
         require (list_all (url_Parse l) (Resources msg)) ErrInvalidResourceURI),
       on_msg m (\<lambda>msg.
         require (ed25519_Verify l (base58_Decode l (Address msg))
                    (bytes_of_string rawMessage) signature) ErrSignatureVerification),
       on_msg m (\<lambda>msg.
         if IssuedAt msg = 0 then None
         else first_failure
           [ require (\<not> now < IssuedAt msg) ErrFutureMessage,
             if CheckTime params \<and> 0 < TimeDuration params
             then require (\<not> IssuedAt msg + TimeDuration params < now) ErrMessageExpired
             else None ]),
       on_msg m (\<lambda>msg.
         if NotBefore msg = 0 then None
         else require (\<not> now < NotBefore msg) ErrNotYetValid),
       on_msg m (\<lambda>msg.
         if ExpirationTime msg = 0 then None
         else require (\<not> ExpirationTime msg < now) ErrMessageExpired) ]"



section \<open>What the envelope functions need of the library\<close>

text \<open>
  The properties of the library that the round trip of an envelope rests on: the decoder
  turns the empty string into no bytes, the HKDF stream holds the 32 bytes the
  derivation reads, and opening what was sealed under the same 32-byte key and 12-byte
  nonce returns the plaintext.
\<close>

definition aead_lib :: "lib \<Rightarrow> bool" where
  "aead_lib l =
     (base64_DecodeString l [] = Some []
      \<and> (\<forall>secret info. 32 \<le> length (hkdf_New l secret [] info))
      \<and> (\<forall>key nonce plaintext. length key = 32 \<and> length nonce = 12 \<longrightarrow>
            gcm_Open l key nonce (gcm_Seal l key nonce plaintext) = Return plaintext))"

section \<open>Concrete inputs\<close>

text \<open>
  A small stand-in for the library, on which the theorems below are run at concrete
  inputs: a decoder that refuses padding, a key stream made of the info and the secret,
  an AEAD that appends half of the key as its
  tag, a codec for the key id of an envelope, a URL parser that refuses the control
  character DEL, and a signature check that accepts the message followed by the key.
\<close>

definition test_lib :: lib where
  "test_lib =
     \<lparr> base64_DecodeString =
         (\<lambda>s. if CHR ''='' \<in> set s then None else Some (bytes_of_string s)),
       hkdf_New = (\<lambda>secret salt info. info @ rev secret @ replicate 32 0),
       gcm_Seal = (\<lambda>key nonce plaintext. plaintext @ take 16 key),
       gcm_Open = (\<lambda>key nonce ciphertext.
         if length ciphertext < 16
            \<or> drop (length ciphertext - 16) ciphertext \<noteq> take 16 key
         then Fail OpenFailed
         else Return (take (length ciphertext - 16) ciphertext)),
       json_Marshal = (\<lambda>es. Some (''{'' @ KeyID es @ ''}'')),
       json_Unmarshal = (\<lambda>s.
         if 2 \<le> length s \<and> hd s = CHR ''{'' \<and> last s = CHR ''}''
         then Some \<lparr>KeyID = butlast (tl s), Algorithm = ''aes-gcm-hkdf'',
                     Data = [1], Nonce = [2]\<rparr>
         else None),
       base58_Decode = bytes_of_string,
       IsValidDomain = (\<lambda>d. d \<noteq> [] \<and> CHR '' '' \<notin> set d),
       IsValidSolanaNetwork = (\<lambda>c. c = ''mainnet'' \<or> c = ''devnet'' \<or> c = ''testnet''),
       url_Parse = (\<lambda>u. CHR 0x7F \<notin> set u),
       ed25519_Verify = (\<lambda>publicKey message sig. sig = message @ publicKey) \<rparr>"

definition test_key :: string where
  "test_key = ''0123456789abcdefghijklmnopqrstuv''"

definition test_msg :: SIWSMessage where
  "test_msg =
     \<lparr> Domain = ''example.com'', Address = ''ABCDEFGHJKLMNPQRSTUVWXYZabcdefgh'',
       Version = ''1'', ChainID = ''mainnet'', Nonce_msg = ''abcdefgh'',
       URI = ''https://example.com/login'', Resources = [''https://example.com/a''],
       IssuedAt = 1000, NotBefore = 0, ExpirationTime = 5000 \<rparr>"

definition test_params :: SIWSVerificationParams where
  "test_params = \<lparr> ExpectedDomain = ''example.com'', CheckTime = True, TimeDuration = 600 \<rparr>"

definition test_raw :: string where
  "test_raw = ''example.com wants you to sign in''"

definition test_sig :: bytes where
  "test_sig = bytes_of_string test_raw @ bytes_of_string (Address test_msg)"

definition test_row :: StoredNonce where
  "test_row =
     \<lparr> ID = 7, Nonce_row = ''abcdefgh'', Address_row = ''A'', CreatedAt = 100,
       ExpiresAt = 200, Used = False \<rparr>"

definition test_es :: EncryptedString where
  "test_es = \<lparr>KeyID = ''k1'', Algorithm = ''aes-gcm-hkdf'', Data = [1], Nonce = [2]\<rparr>"


section \<open>Calls of the nonce store, one after another\<close>

text \<open>
  \<open>consume_each\<close> runs one call of \<open>VerifyAndConsumeNonce\<close> for each instant of
  a list, each on the table the call before it left, and collects what the calls return.
\<close>

fun consume_each ::
  "time list \<Rightarrow> nonces \<Rightarrow> string \<Rightarrow> string \<Rightarrow> nonces \<times> consume_error option list" where
  "consume_each [] db nonce address = (db, [])"
| "consume_each (now # later) db nonce address =
     (case VerifyAndConsumeNonce now db nonce address of
        (db', err) \<Rightarrow>
          (case consume_each later db' nonce address of
             (db'', errs) \<Rightarrow> (db'', err # errs)))"

section \<open>Bytes of a string\<close>




lemma bytes_of_string_length: "length (bytes_of_string s) = length s"
  by (simp add: bytes_of_string_def)

section \<open>The verifier runs the sixteen preconditions in order\<close>

lemma validate_resources_list_all:
  "validate_resources l rs =
     (if list_all (url_Parse l) rs then None else Some ErrInvalidResourceURI)"
  by (induction rs) simp_all

lemma first_failure_None_iff:
  "first_failure cs = None \<longleftrightarrow> list_all (\<lambda>c. c = None) cs"
  by (induction cs rule: first_failure.induct) simp_all

lemma first_failure_Some_index:
  "first_failure cs = Some e \<Longrightarrow>
     \<exists>k<length cs. cs ! k = Some e \<and> (\<forall>j<k. cs ! j = None)"
proof (induction cs rule: first_failure.induct)
  case 1
  then show ?case by simp
next
  case (2 cs)
  then obtain k where k: "k < length cs" "cs ! k = Some e" "\<forall>j<k. cs ! j = None"
    by auto
  have "\<forall>j<Suc k. (None # cs) ! j = None"
    using k(3) by (auto simp: nth_Cons split: nat.splits)
  with k(1,2) show ?case
    by (intro exI [of _ "Suc k"]) simp
next
  case (3 e' cs)
  then show ?case
    by (intro exI [of _ 0]) simp
qed

lemma length_preconditions: "length (preconditions l now raw sg m params) = 16"
  by (simp add: preconditions_def)

lemma VerifySIWS_first_failure:
  "VerifySIWS l now raw sg m params = first_failure (preconditions l now raw sg m params)"
proof (cases m)
  case None
  then show ?thesis
    by (simp add: VerifySIWS_def preconditions_def require_def on_msg_def)
next
  case (Some msg)
  then show ?thesis
    by (simp add: VerifySIWS_def preconditions_def require_def on_msg_def
        IsBase58PubKey_def validate_resources_list_all Let_def)
qed








lemma test_VerifySIWS_bad_version:
  "VerifySIWS test_lib 1500 test_raw test_sig (Some (test_msg\<lparr>Version := ''2''\<rparr>)) test_params
     = Some ErrInvalidVersion"
  by (simp add: VerifySIWS_def test_lib_def test_msg_def test_params_def test_raw_def
      test_sig_def bytes_of_string_def IsBase58PubKey_def)

lemma test_VerifySIWS_ok:
  "VerifySIWS test_lib 1500 test_raw test_sig (Some test_msg) test_params = None"
  by (simp add: VerifySIWS_def test_lib_def test_msg_def test_params_def test_raw_def
      test_sig_def bytes_of_string_def IsBase58PubKey_def)

text \<open>
  Claim C3. For every raw message, signature, parsed message and parameters,
  \<open>VerifySIWS\<close> evaluates the sixteen preconditions of section 4.1 in the stated
  order and is fail-fast: its result is the error of the first precondition of the list
  that fails, and it returns success exactly when all sixteen hold.
\<close>

theorem VerifySIWS_checks_in_order:
  "VerifySIWS l now raw sg m params = first_failure (preconditions l now raw sg m params)
   \<and> length (preconditions l now raw sg m params) = 16
   \<and> (VerifySIWS l now raw sg m params = None
        \<longleftrightarrow> list_all (\<lambda>c. c = None) (preconditions l now raw sg m params))
   \<and> (\<forall>e. VerifySIWS l now raw sg m params = Some e \<longrightarrow>
         (\<exists>k<16. preconditions l now raw sg m params ! k = Some e
            \<and> (\<forall>j<k. preconditions l now raw sg m params ! j = None)))"
proof (intro conjI allI impI)
  show "VerifySIWS l now raw sg m params
          = first_failure (preconditions l now raw sg m params)"
    by (rule VerifySIWS_first_failure)
  show "length (preconditions l now raw sg m params) = 16"
    by (rule length_preconditions)
  show "VerifySIWS l now raw sg m params = None
          \<longleftrightarrow> list_all (\<lambda>c. c = None) (preconditions l now raw sg m params)"
    by (simp only: VerifySIWS_first_failure first_failure_None_iff)
next
  fix e
  assume "VerifySIWS l now raw sg m params = Some e"
  then have "first_failure (preconditions l now raw sg m params) = Some e"
    by (simp only: VerifySIWS_first_failure)
  from first_failure_Some_index [OF this]
  show "\<exists>k<16. preconditions l now raw sg m params ! k = Some e
          \<and> (\<forall>j<k. preconditions l now raw sg m params ! j = None)"
    by (simp only: length_preconditions)
qed

text \<open>
  The theorem at concrete inputs: a message of version 2 is refused with
  \<open>ErrInvalidVersion\<close>, the first precondition that fails, and the same message of
  version 1 passes all sixteen.
\<close>

theorem VerifySIWS_checks_in_order_witness:
  "VerifySIWS test_lib 1500 test_raw test_sig (Some (test_msg\<lparr>Version := ''2''\<rparr>)) test_params
     = Some ErrInvalidVersion
   \<and> (\<exists>k<16. preconditions test_lib 1500 test_raw test_sig
                 (Some (test_msg\<lparr>Version := ''2''\<rparr>)) test_params ! k = Some ErrInvalidVersion
        \<and> (\<forall>j<k. preconditions test_lib 1500 test_raw test_sig
                 (Some (test_msg\<lparr>Version := ''2''\<rparr>)) test_params ! j = None))
   \<and> VerifySIWS test_lib 1500 test_raw test_sig (Some test_msg) test_params = None
   \<and> list_all (\<lambda>c. c = None)
        (preconditions test_lib 1500 test_raw test_sig (Some test_msg) test_params)"
proof -
  note bad = VerifySIWS_checks_in_order
    [of test_lib 1500 test_raw test_sig "Some (test_msg\<lparr>Version := ''2''\<rparr>)" test_params]
  note ok = VerifySIWS_checks_in_order
    [of test_lib 1500 test_raw test_sig "Some test_msg" test_params]
  from bad test_VerifySIWS_bad_version
  have 1: "\<exists>k<16. preconditions test_lib 1500 test_raw test_sig
                 (Some (test_msg\<lparr>Version := ''2''\<rparr>)) test_params ! k = Some ErrInvalidVersion
        \<and> (\<forall>j<k. preconditions test_lib 1500 test_raw test_sig
                 (Some (test_msg\<lparr>Version := ''2''\<rparr>)) test_params ! j = None)"
    by blast
  from ok test_VerifySIWS_ok
  have 2: "list_all (\<lambda>c. c = None)
        (preconditions test_lib 1500 test_raw test_sig (Some test_msg) test_params)"
    by blast
  from test_VerifySIWS_bad_version 1 test_VerifySIWS_ok 2 show ?thesis
    by blast
qed

section \<open>The signature check\<close>






section \<open>URIs that do not parse\<close>







section \<open>Key derivation\<close>

lemma deriveSymmetricKey_cases:
  "deriveSymmetricKey l id' keyID s =
     (case base64_DecodeString l s of
        None \<Rightarrow> Fail CorruptInputError
      | Some k \<Rightarrow>
          if length k \<noteq> 32 then Fail (KeyNot256Bits keyID)
          else if length (hkdf_New l k [] (bytes_of_string id')) < 32 then Panic
          else Return (take 32 (hkdf_New l k [] (bytes_of_string id'))))"
  by (simp add: deriveSymmetricKey_def must_def io_ReadFull_def split: option.splits)

lemma test_key_decodes:
  "base64_DecodeString test_lib test_key = Some (bytes_of_string test_key)"
  by (simp add: test_lib_def test_key_def)

lemma test_key_bits: "8 * length (bytes_of_string test_key) = 256"
  by (simp add: test_key_def bytes_of_string_def)

text \<open>
  Claim C5. \<open>deriveSymmetricKey\<close> returns an error exactly when the base key material
  is refused by the URL-safe base64 decoder or decodes to a number of bits other than
  256. When it returns a key, the key has exactly 256 bits and is the first 32 bytes of the
  HKDF stream keyed by the decoded material, with no salt and the record identifier as
  info; and it does return that key whenever the material decodes to 256 bits and the
  stream holds 32 bytes.
\<close>

theorem deriveSymmetricKey_result:
  "((\<exists>e. deriveSymmetricKey l id' keyID s = Fail e)
      \<longleftrightarrow> (base64_DecodeString l s = None
           \<or> (\<exists>k. base64_DecodeString l s = Some k \<and> 8 * length k \<noteq> 256)))
   \<and> (\<forall>key. deriveSymmetricKey l id' keyID s = Return key \<longrightarrow>
         8 * length key = 256
         \<and> (\<exists>k. base64_DecodeString l s = Some k \<and> 8 * length k = 256
               \<and> key = take 32 (hkdf_New l k [] (bytes_of_string id'))))
   \<and> (\<forall>k. base64_DecodeString l s = Some k \<and> 8 * length k = 256
            \<and> 32 \<le> length (hkdf_New l k [] (bytes_of_string id')) \<longrightarrow>
         deriveSymmetricKey l id' keyID s
           = Return (take 32 (hkdf_New l k [] (bytes_of_string id'))))"
  by (auto simp: deriveSymmetricKey_cases split: option.splits if_splits)

text \<open>
  The theorem at concrete inputs: padded material and material of five bytes are
  refused, each with its error, and the 32-byte key gives a key of 256 bits.
\<close>

theorem deriveSymmetricKey_result_witness:
  "deriveSymmetricKey test_lib ''user-1'' ''k1'' ''a='' = Fail CorruptInputError
   \<and> base64_DecodeString test_lib ''a='' = None
   \<and> deriveSymmetricKey test_lib ''user-1'' ''k1'' ''short'' = Fail (KeyNot256Bits ''k1'')
   \<and> (\<exists>k. base64_DecodeString test_lib ''short'' = Some k \<and> 8 * length k \<noteq> 256)
   \<and> (\<exists>key. deriveSymmetricKey test_lib ''user-1'' ''k1'' test_key = Return key
          \<and> 8 * length key = 256)"
proof -
  have a: "deriveSymmetricKey test_lib ''user-1'' ''k1'' ''a='' = Fail CorruptInputError"
    by (simp add: deriveSymmetricKey_def test_lib_def)
  have b: "deriveSymmetricKey test_lib ''user-1'' ''k1'' ''short'' = Fail (KeyNot256Bits ''k1'')"
    by (simp add: deriveSymmetricKey_def test_lib_def bytes_of_string_def)
  have stream: "32 \<le> length (hkdf_New test_lib (bytes_of_string test_key) []
                  (bytes_of_string ''user-1''))"
    by (simp add: test_lib_def)
  have a'': "base64_DecodeString test_lib ''a='' = None"
    by (simp add: test_lib_def)
  from deriveSymmetricKey_result [of test_lib "''user-1''" "''k1''" "''short''"] b
  have b': "base64_DecodeString test_lib ''short'' = None
             \<or> (\<exists>k. base64_DecodeString test_lib ''short'' = Some k \<and> 8 * length k \<noteq> 256)"
    by blast
  have "base64_DecodeString test_lib ''short'' \<noteq> None"
    by (simp add: test_lib_def)
  with b' have b'': "\<exists>k. base64_DecodeString test_lib ''short'' = Some k \<and> 8 * length k \<noteq> 256"
    by blast
  from deriveSymmetricKey_result [of test_lib "''user-1''" "''k1''" test_key]
    test_key_decodes test_key_bits stream
  have c: "deriveSymmetricKey test_lib ''user-1'' ''k1'' test_key
      = Return (take 32 (hkdf_New test_lib (bytes_of_string test_key) []
                  (bytes_of_string ''user-1'')))"
    by blast
  from deriveSymmetricKey_result [of test_lib "''user-1''" "''k1''" test_key] c
  have "8 * length (take 32 (hkdf_New test_lib (bytes_of_string test_key) []
                  (bytes_of_string ''user-1''))) = 256"
    by blast
  with c have c': "\<exists>key. deriveSymmetricKey test_lib ''user-1'' ''k1'' test_key = Return key
          \<and> 8 * length key = 256"
    by blast
  from a a'' b b'' c' show ?thesis by blast
qed

section \<open>Encrypt, then decrypt\<close>

lemma deriveSymmetricKey_Return:
  assumes "aead_lib l" "base64_DecodeString l s = Some k" "length k = 32"
  shows "deriveSymmetricKey l id' keyID s = Return (take 32 (hkdf_New l k [] (bytes_of_string id')))"
  using assms by (simp add: deriveSymmetricKey_cases aead_lib_def not_less)

lemma test_aead_lib: "aead_lib test_lib"
  by (simp add: aead_lib_def test_lib_def bytes_of_string_def)

text \<open>
  Claim C4. For every record identifier, every plaintext (the empty one included), every
  key id and every base key that decodes to 256 bits, \<open>NewEncryptedString\<close> returns
  an envelope, and \<open>Decrypt\<close> of that envelope with the same record identifier and a
  key map that gives the key id the same base key returns exactly the plaintext. The
  library is assumed to be as \<open>aead_lib\<close> says, and the random source to yield
  the 12 bytes of the nonce.
\<close>

theorem encrypt_decrypt_roundtrip:
  assumes "aead_lib l"
    and "base64_DecodeString l keyBase64URL = Some k" and "8 * length k = 256"
    and "12 \<le> length rnd"
    and "decryptionKeys keyID = Some keyBase64URL"
  shows "\<exists>es. NewEncryptedString l rnd id' data keyID keyBase64URL = Return es
           \<and> KeyID es = keyID \<and> Algorithm es = ''aes-gcm-hkdf'' \<and> Nonce es = take 12 rnd
           \<and> Decrypt l es id' decryptionKeys = Return data"
proof -
  define key where "key = take 32 (hkdf_New l k [] (bytes_of_string id'))"
  define es where "es = \<lparr>KeyID = keyID, Algorithm = ''aes-gcm-hkdf'',
    Data = gcm_Seal l key (take 12 rnd) data, Nonce = take 12 rnd\<rparr>"
  have len: "length k = 32" using assms(3) by simp
  have nonempty: "keyBase64URL \<noteq> []"
    using assms(1,2) len by (auto simp: aead_lib_def)
  have d: "deriveSymmetricKey l id' keyID keyBase64URL = Return key"
    unfolding key_def by (rule deriveSymmetricKey_Return [OF assms(1,2) len])
  have klen: "length key = 32"
    using assms(1) by (simp add: key_def aead_lib_def)
  have nlen: "length (take 12 rnd) = 12"
    using assms(4) by simp
  have enc: "NewEncryptedString l rnd id' data keyID keyBase64URL = Return es"
    using assms(4) klen
    by (simp add: NewEncryptedString_def d and_then_def must_def aes_NewCipher_def
        cipher_NewGCM_def io_ReadFull_def es_def not_less)
  have opn: "gcm_Open l key (take 12 rnd) (gcm_Seal l key (take 12 rnd) data) = Return data"
    using assms(1) klen nlen by (simp add: aead_lib_def)
  have dec: "Decrypt l es id' decryptionKeys = Return data"
    using nonempty klen opn
    by (simp add: Decrypt_def map_index_def assms(5) es_def d and_then_def must_def
        aes_NewCipher_def cipher_NewGCM_def)
  show ?thesis
    by (intro exI [of _ es]) (simp add: enc dec, simp add: es_def)
qed

text \<open>
  The theorem at concrete inputs: the empty plaintext and a plaintext of two bytes,
  each encrypted and decrypted under the same key.
\<close>

theorem encrypt_decrypt_roundtrip_witness:
  "aead_lib test_lib
   \<and> base64_DecodeString test_lib test_key = Some (bytes_of_string test_key)
   \<and> 8 * length (bytes_of_string test_key) = 256
   \<and> (\<exists>es. NewEncryptedString test_lib [1, 2, 3, 4, 5, 6, 7, 8, 9, 10, 11, 12, 13]
               ''user-1'' [] ''k1'' test_key = Return es
         \<and> KeyID es = ''k1'' \<and> Algorithm es = ''aes-gcm-hkdf''
         \<and> Nonce es = take 12 [1, 2, 3, 4, 5, 6, 7, 8, 9, 10, 11, 12, 13]
         \<and> Decrypt test_lib es ''user-1'' [''k1'' \<mapsto> test_key] = Return [])
   \<and> (\<exists>es. NewEncryptedString test_lib [1, 2, 3, 4, 5, 6, 7, 8, 9, 10, 11, 12, 13]
               ''user-1'' [104, 105] ''k1'' test_key = Return es
         \<and> KeyID es = ''k1'' \<and> Algorithm es = ''aes-gcm-hkdf''
         \<and> Nonce es = take 12 [1, 2, 3, 4, 5, 6, 7, 8, 9, 10, 11, 12, 13]
         \<and> Decrypt test_lib es ''user-1'' [''k1'' \<mapsto> test_key] = Return [104, 105])"
proof -
  have rnd: "12 \<le> length [1, 2, 3, 4, 5, 6, 7, 8, 9, 10, 11, 12, 13 :: byte]"
    by simp
  have keys: "[''k1'' \<mapsto> test_key] ''k1'' = Some test_key"
    by simp
  note th = encrypt_decrypt_roundtrip
    [where decryptionKeys = "[''k1'' \<mapsto> test_key]" and keyID = "''k1''",
     OF test_aead_lib test_key_decodes test_key_bits rnd keys]
  from test_aead_lib test_key_decodes test_key_bits th [of "''user-1''" "[]"]
    th [of "''user-1''" "[104, 105]"]
  show ?thesis by blast
qed

section \<open>A key id mapped to the empty string\<close>

lemma deriveSymmetricKey_never_KeyDoesNotExist:
  "deriveSymmetricKey l id' keyID s \<noteq> Fail (KeyDoesNotExist n)"
  by (simp add: deriveSymmetricKey_cases split: option.splits)

text \<open>
  Claim C10. \<open>Decrypt\<close> tests the key it looked up for emptiness, not the map for
  membership: an envelope whose key id the map gives the empty string fails with the
  same does-not-exist error as one whose key id is absent from the map. Key derivation
  never returns that error, so the result is not the derivation's; the derivation
  gets the looked-up key only when it is non-empty.
\<close>

theorem Decrypt_empty_key_is_missing_key:
  "(decryptionKeys (KeyID es) = Some [] \<longrightarrow>
      Decrypt l es id' decryptionKeys = Fail (KeyDoesNotExist (KeyID es)))
   \<and> (decryptionKeys (KeyID es) = None \<longrightarrow>
      Decrypt l es id' decryptionKeys = Fail (KeyDoesNotExist (KeyID es)))
   \<and> deriveSymmetricKey l id' (KeyID es) [] \<noteq> Fail (KeyDoesNotExist (KeyID es))
   \<and> (\<forall>k. decryptionKeys (KeyID es) = Some k \<and> k \<noteq> [] \<longrightarrow>
        Decrypt l es id' decryptionKeys =
          and_then (deriveSymmetricKey l id' (KeyID es) k) (\<lambda>key.
          and_then (must (aes_NewCipher key)) (\<lambda>block.
          and_then (must (cipher_NewGCM block)) (\<lambda>gcm.
          gcm_Open l gcm (Nonce es) (Data es)))))"
  by (simp add: Decrypt_def map_index_def deriveSymmetricKey_never_KeyDoesNotExist)

text \<open>
  The theorem at concrete inputs. The empty key and the absent key give the same error,
  where the derivation run on the empty string would have said that the key is not 256
  bits, as it does for a short key that is present.
\<close>

theorem Decrypt_empty_key_is_missing_key_witness:
  "Decrypt test_lib test_es ''user-1'' [''k1'' \<mapsto> []] = Fail (KeyDoesNotExist ''k1'')
   \<and> Decrypt test_lib test_es ''user-1'' Map.empty = Fail (KeyDoesNotExist ''k1'')
   \<and> deriveSymmetricKey test_lib ''user-1'' ''k1'' [] = Fail (KeyNot256Bits ''k1'')
   \<and> Decrypt test_lib test_es ''user-1'' [''k1'' \<mapsto> ''short''] = Fail (KeyNot256Bits ''k1'')"
proof -
  have k: "KeyID test_es = ''k1''" by (simp add: test_es_def)
  have d: "deriveSymmetricKey test_lib ''user-1'' ''k1'' [] = Fail (KeyNot256Bits ''k1'')"
    by (simp add: deriveSymmetricKey_def test_lib_def bytes_of_string_def)
  have d2: "deriveSymmetricKey test_lib ''user-1'' ''k1'' ''short'' = Fail (KeyNot256Bits ''k1'')"
    by (simp add: deriveSymmetricKey_def test_lib_def bytes_of_string_def)
  have 1: "Decrypt test_lib test_es ''user-1'' [''k1'' \<mapsto> []] = Fail (KeyDoesNotExist ''k1'')"
    using Decrypt_empty_key_is_missing_key [of "[''k1'' \<mapsto> []]" test_es test_lib "''user-1''"]
    by (simp add: k)
  have 2: "Decrypt test_lib test_es ''user-1'' Map.empty = Fail (KeyDoesNotExist ''k1'')"
    using Decrypt_empty_key_is_missing_key [of Map.empty test_es test_lib "''user-1''"]
    by (simp add: k)
  have 3: "Decrypt test_lib test_es ''user-1'' [''k1'' \<mapsto> ''short''] = Fail (KeyNot256Bits ''k1'')"
    using Decrypt_empty_key_is_missing_key [of "[''k1'' \<mapsto> ''short'']" test_es test_lib "''user-1''"]
    by (simp add: k d2 and_then_def)
  from 1 2 d 3 show ?thesis by blast
qed

section \<open>Re-encryption\<close>

text \<open>
  Claim C7. For every envelope and every current key id, \<open>ShouldReEncrypt\<close> is true
  if and only if the key id stored in the envelope differs from the current key id, and
  false otherwise.
\<close>

theorem ShouldReEncrypt_iff:
  "(ShouldReEncrypt es currentKeyID \<longleftrightarrow> KeyID es \<noteq> currentKeyID)
   \<and> (\<not> ShouldReEncrypt es currentKeyID \<longleftrightarrow> KeyID es = currentKeyID)"
  by (simp add: ShouldReEncrypt_def)

text \<open>The theorem at a concrete envelope, stored under the key id \<open>k1\<close>.\<close>

theorem ShouldReEncrypt_iff_witness:
  "ShouldReEncrypt test_es ''k2'' \<and> \<not> ShouldReEncrypt test_es ''k1''"
  using ShouldReEncrypt_iff [of test_es "''k2''"] ShouldReEncrypt_iff [of test_es "''k1''"]
  by (simp add: test_es_def)

section \<open>The string form of an envelope\<close>



section \<open>The nonce store\<close>

lemma QueryRow_Some:
  "QueryRow db nonce address = Some r \<Longrightarrow>
     r \<in> set db \<and> Nonce_row r = nonce \<and> Used r = False \<and> Address_row r = address"
  unfolding QueryRow_def by (auto simp: find_Some_iff)

lemma test_QueryRow: "QueryRow [test_row] ''abcdefgh'' ''A'' = Some test_row"
  by (simp add: QueryRow_def test_row_def)

text \<open>
  Claim C6. When the row that the lookup returns for a nonce and an address has an
  \<open>ExpiresAt\<close> that has passed, \<open>VerifyAndConsumeNonce\<close> fails with the
  expired error and leaves the table as it was: the row is still there and its
  \<open>Used\<close> field is still false.
\<close>

theorem expired_nonce_not_consumed:
  assumes "QueryRow db nonce address = Some r" and "ExpiresAt r < now"
  shows "VerifyAndConsumeNonce now db nonce address = (db, Some ErrNonceExpired)
     \<and> r \<in> set (fst (VerifyAndConsumeNonce now db nonce address)) \<and> Used r = False"
  using assms QueryRow_Some [OF assms(1)]
  by (simp add: VerifyAndConsumeNonce_def Transaction_def)

text \<open>The theorem at a concrete table: one row that expired at 200, consumed at 300.\<close>

theorem expired_nonce_not_consumed_witness:
  "QueryRow [test_row] ''abcdefgh'' ''A'' = Some test_row \<and> ExpiresAt test_row < 300
   \<and> VerifyAndConsumeNonce 300 [test_row] ''abcdefgh'' ''A'' = ([test_row], Some ErrNonceExpired)
   \<and> Used test_row = False"
proof -
  have e: "ExpiresAt test_row < 300" by (simp add: test_row_def)
  from expired_nonce_not_consumed [OF test_QueryRow e] test_QueryRow e
  show ?thesis by blast
qed

subsection \<open>Calls that run one after another\<close>

text \<open>
  Calls that race are outside this model. What follows is about calls that run one
  after another, each as one transaction on the table the call before it left.
\<close>

lemma consume_no_rows:
  "QueryRow db nonce address = None \<Longrightarrow>
     VerifyAndConsumeNonce now db nonce address = (db, Some ErrNoRows)"
  by (simp add: VerifyAndConsumeNonce_def Transaction_def)

lemma consume_live:
  "QueryRow db nonce address = Some r \<Longrightarrow> \<not> ExpiresAt r < now \<Longrightarrow>
     VerifyAndConsumeNonce now db nonce address = (Exec_update db address (ID r), None)"
  by (simp add: VerifyAndConsumeNonce_def Transaction_def)

lemma QueryRow_after_update:
  assumes "QueryRow db nonce address = Some r"
    and "\<forall>r' \<in> set db. Nonce_row r' = nonce \<and> Address_row r' = address \<and> \<not> Used r'
           \<longrightarrow> ID r' = ID r"
  shows "QueryRow (Exec_update db address (ID r)) nonce address = None"
proof -
  have "\<not> (Nonce_row y = nonce \<and> Used y = False \<and> Address_row y = address)"
    if "y \<in> set (Exec_update db address (ID r))" for y
  proof -
    from that obtain x where x: "x \<in> set db"
      and y: "y = (if ID x = ID r then x\<lparr>Used := True, Address_row := address\<rparr> else x)"
      by (auto simp: Exec_update_def)
    show ?thesis
    proof (cases "ID x = ID r")
      case True
      with y show ?thesis by simp
    next
      case False
      with y have "y = x" by simp
      with False x assms(2) show ?thesis by blast
    qed
  qed
  then show ?thesis
    by (simp add: QueryRow_def find_None_iff)
qed

lemma consume_each_no_rows:
  "QueryRow db nonce address = None \<Longrightarrow>
     consume_each later db nonce address = (db, replicate (length later) (Some ErrNoRows))"
  by (induction later) (simp_all add: consume_no_rows)

text \<open>
  Property X1. When the lookup finds a row that has not expired, and every unused row for
  the nonce and the address has that row's id, then of any number of calls run one
  after another the first succeeds and every later one fails with \<open>ErrNoRows\<close>.
\<close>

theorem consume_exactly_once_in_sequence:
  assumes "QueryRow db nonce address = Some r"
    and "\<forall>r' \<in> set db. Nonce_row r' = nonce \<and> Address_row r' = address \<and> \<not> Used r'
           \<longrightarrow> ID r' = ID r"
    and "now \<le> ExpiresAt r"
  shows "consume_each (now # later) db nonce address
     = (Exec_update db address (ID r), None # replicate (length later) (Some ErrNoRows))"
proof -
  have "\<not> ExpiresAt r < now" using assms(3) by simp
  from consume_live [OF assms(1) this]
  have first: "VerifyAndConsumeNonce now db nonce address = (Exec_update db address (ID r), None)" .
  have rest: "consume_each later (Exec_update db address (ID r)) nonce address
     = (Exec_update db address (ID r), replicate (length later) (Some ErrNoRows))"
    by (rule consume_each_no_rows [OF QueryRow_after_update [OF assms(1,2)]])
  show ?thesis by (simp add: first rest)
qed

text \<open>The theorem at a concrete table: three calls on one row.\<close>

theorem consume_exactly_once_in_sequence_witness:
  "QueryRow [test_row] ''abcdefgh'' ''A'' = Some test_row \<and> 150 \<le> ExpiresAt test_row
   \<and> consume_each [150, 160, 170] [test_row] ''abcdefgh'' ''A''
        = ([test_row\<lparr>Used := True\<rparr>], [None, Some ErrNoRows, Some ErrNoRows])"
proof -
  have u: "\<forall>r' \<in> set [test_row]. Nonce_row r' = ''abcdefgh'' \<and> Address_row r' = ''A''
              \<and> \<not> Used r' \<longrightarrow> ID r' = ID test_row"
    by simp
  have e: "150 \<le> ExpiresAt test_row" by (simp add: test_row_def)
  have x: "Exec_update [test_row] ''A'' (ID test_row) = [test_row\<lparr>Used := True\<rparr>]"
    by (simp add: Exec_update_def test_row_def)
  from consume_exactly_once_in_sequence [OF test_QueryRow u e, of "[160, 170]"] x
  have "consume_each [150, 160, 170] [test_row] ''abcdefgh'' ''A''
        = ([test_row\<lparr>Used := True\<rparr>], [None, Some ErrNoRows, Some ErrNoRows])"
    by (simp add: numeral_2_eq_2)
  with test_QueryRow e show ?thesis by blast
qed

text \<open>
  Property X2. A call keeps every row in its place with its id, and never turns the
  \<open>Used\<close> field of a row from true to false.
\<close>

theorem used_never_reset:
  "length (fst (VerifyAndConsumeNonce now db nonce address)) = length db
   \<and> (\<forall>i<length db.
        ID (fst (VerifyAndConsumeNonce now db nonce address) ! i) = ID (db ! i)
        \<and> (Used (db ! i) \<longrightarrow> Used (fst (VerifyAndConsumeNonce now db nonce address) ! i)))"
  by (auto simp: VerifyAndConsumeNonce_def Transaction_def Exec_update_def
      split: option.splits)

text \<open>The theorem at a concrete table: a used row stays used.\<close>

theorem used_never_reset_witness:
  "length (fst (VerifyAndConsumeNonce 150 [test_row\<lparr>Used := True\<rparr>, test_row] ''abcdefgh'' ''A'')) = 2
   \<and> Used (fst (VerifyAndConsumeNonce 150 [test_row\<lparr>Used := True\<rparr>, test_row] ''abcdefgh'' ''A'') ! 0)"
proof -
  have "Used ([test_row\<lparr>Used := True\<rparr>, test_row] ! 0)" by simp
  with used_never_reset [of 150 "[test_row\<lparr>Used := True\<rparr>, test_row]" "''abcdefgh''" "''A''"]
  show ?thesis by simp
qed

end
